theory Spec2Isabelle
  imports Main "HOL-Library.Sublist"
begin

section \<open>The connection string of \<^verbatim>\<open>drizzle.config.ts\<close>\<close>

text \<open>
  The process environment \<^verbatim>\<open>Bun.env\<close> maps a variable name to its value, a string, or
  to \<^verbatim>\<open>undefined\<close> when the variable is not set.
\<close>

type_synonym env = "string \<rightharpoonup> string"

text \<open>
  A condition \<^verbatim>\<open>if (Bun.env.X)\<close> tests the truthiness of a value that is a string or
  \<^verbatim>\<open>undefined\<close>: \<^verbatim>\<open>undefined\<close> and the empty string are falsy, every other string is
  truthy.
\<close>

definition truthy :: "string option \<Rightarrow> bool" where
  "truthy v = (case v of None \<Rightarrow> False | Some s \<Rightarrow> s \<noteq> [])"

text \<open>
  \<^verbatim>\<open>
  let url: string = "file:local.db";
  if (Bun.env.TURSO_DATABASE_URL) {
    url = Bun.env.TURSO_DATABASE_URL;
    if (Bun.env.TURSO_AUTH_TOKEN) {
      url += `?authToken=${Bun.env.TURSO_AUTH_TOKEN}`;
    }
  }
  \<close>
  The variable is assigned at most twice; the model threads its value through the two
  conditionals. Inside a branch the variable read is the one just tested, so its value
  is a non-empty string there and the \<open>None\<close> cases below are never taken. No statement
  of the block can throw, so the result is a plain string.
\<close>

definition url :: "env \<Rightarrow> string" where
  "url e =
     (let url0 = ''file:local.db'' in
      if truthy (e ''TURSO_DATABASE_URL'') then
        (case e ''TURSO_DATABASE_URL'' of
           None \<Rightarrow> url0
         | Some database_url \<Rightarrow>
             (let url1 = database_url in
              if truthy (e ''TURSO_AUTH_TOKEN'') then
                (case e ''TURSO_AUTH_TOKEN'' of
                   None \<Rightarrow> url1
                 | Some auth_token \<Rightarrow> url1 @ ''?authToken='' @ auth_token)
              else url1))
      else url0)"

section \<open>The HTTP server of the entry file\<close>

text \<open>
  \<^verbatim>\<open>
  import { Elysia } from "elysia";
  import { swagger } from "@elysiajs/swagger";
  import { db } from "./db";
  import { users } from "./db/schema";

  const app = new Elysia()
    .use(swagger())
    .get("/", () => "Hello Elysia")
    .get("/users", async () => {
      return await db.select().from(users).all();
    })
    .listen(3000);

  console.log(`... Elysia is running at ${app.server?.hostname}:${app.server?.port}`);
  \<close>
\<close>

subsection \<open>The imported database client\<close>

text \<open>
  The schema module exports one table object that the entry file uses; the shape of its
  rows is not fixed by the entry file, so rows are a type parameter \<open>'r\<close>.
\<close>

datatype table = users

text \<open>
  The client \<^verbatim>\<open>db\<close> comes from a module that is not part of the entry file, so it is a
  parameter of the model. The only use made of it is the query
  \<^verbatim>\<open>db.select().from(t).all()\<close>: run against the database in state \<open>'s\<close> it either
  yields the rows of \<^verbatim>\<open>t\<close> or throws a value of type \<open>'e\<close>, and it leaves the
  database and its connection in a new state. Every query issued is one application of
  this function, so a second query or a retry would show in the state.
\<close>

type_synonym ('e, 'r, 's) db = "table \<Rightarrow> 's \<Rightarrow> ('e + 'r list) \<times> 's"

subsection \<open>Requests, handlers and responses\<close>

datatype http_method = GET | HEAD | POST | PUT | PATCH | DELETE | OPTIONS

record request =
  req_method :: http_method
  path :: string
  headers :: "(string \<times> string) list"
  body :: string

text \<open>
  What a handler returns: a string, sent as plain text, or an array of rows, sent as a
  JSON array.
\<close>

datatype 'r reply = Text string | Rows "'r list"

text \<open>
  A handler receives the request context and runs against the database state. It
  returns a value (\<open>Inr\<close>) or throws (\<open>Inl\<close>); an \<^verbatim>\<open>async\<close> handler whose promise
  rejects with \<open>e\<close> is a handler that throws \<open>e\<close>.
\<close>

type_synonym ('e, 'r, 's) handler = "request \<Rightarrow> 's \<Rightarrow> ('e + 'r reply) \<times> 's"

text \<open>\<^verbatim>\<open>() => "Hello Elysia"\<close>\<close>

definition root_handler :: "('e, 'r, 's) handler" where
  "root_handler rq s = (Inr (Text ''Hello Elysia''), s)"

text \<open>
  \<^verbatim>\<open>async () => { return await db.select().from(users).all(); }\<close>
  The \<^verbatim>\<open>await\<close> rethrows the rejection of the query; there is no \<^verbatim>\<open>try\<close> around it.
\<close>

definition users_handler :: "('e, 'r, 's) db \<Rightarrow> ('e, 'r, 's) handler" where
  "users_handler db rq s =
     (case db users s of
        (Inl e, s') \<Rightarrow> (Inl e, s')
      | (Inr rows, s') \<Rightarrow> (Inr (Rows rows), s'))"

subsection \<open>What the process is started with\<close>

text \<open>
  Everything through which a run of the program can be configured from outside: the
  environment variables and the command line. The entry file itself reads neither. The
  module \<^verbatim>\<open>./db\<close>, evaluated by the import before the body runs, is the one place that
  reads the environment; it is not part of the entry file, so it is a parameter of the
  model: a function from the configuration to the client it exports. The model starts
  where the imports have been evaluated.
\<close>

record config =
  env_vars :: env
  argv :: "string list"

type_synonym ('e, 'r, 's) db_module = "config \<Rightarrow> ('e, 'r, 's) db"

subsection \<open>Building the application\<close>

datatype plugin = swagger

text \<open>
  The effects of the entry file that can be observed from outside, in the order in
  which they happen. The text of the console line depends on the host name that the
  runtime reports and is not modelled; that a line is written is.
\<close>

datatype event =
    Constructed
  | is_plugin_registered: Plugin_registered plugin
  | is_handler_registered: Handler_registered http_method string
  | is_bound: Bound nat
  | Console_written

text \<open>The error that \<^verbatim>\<open>listen\<close> throws when the port is already in use on the host.\<close>

datatype startup_error = EADDRINUSE nat

text \<open>
  The state of the process: the application object (its plugins, its routes in the
  order of registration, the port it listens on, if any), the trace of effects, and the
  exception that ended the module body, if one was thrown: nothing in the entry file
  catches it, so no later statement runs.
\<close>

record ('e, 'r, 's) process =
  plugins :: "plugin list"
  routes :: "(http_method \<times> string \<times> ('e, 'r, 's) handler) list"
  port :: "nat option"
  trace :: "event list"
  uncaught :: "startup_error option"

definition new_Elysia :: "('e, 'r, 's) process" where
  "new_Elysia =
     \<lparr>plugins = [], routes = [], port = None, trace = [Constructed], uncaught = None\<rparr>"

definition use :: "plugin \<Rightarrow> ('e, 'r, 's) process \<Rightarrow> ('e, 'r, 's) process" where
  "use p a = a\<lparr>plugins := plugins a @ [p], trace := trace a @ [Plugin_registered p]\<rparr>"

definition get ::
  "string \<Rightarrow> ('e, 'r, 's) handler \<Rightarrow> ('e, 'r, 's) process \<Rightarrow> ('e, 'r, 's) process" where
  "get p h a =
     a\<lparr>routes := routes a @ [(GET, p, h)], trace := trace a @ [Handler_registered GET p]\<rparr>"

text \<open>
  \<^verbatim>\<open>.listen(n)\<close> asks the host for port \<open>n\<close>. The ports already in use on the host are
  an input. When \<open>n\<close> is among them the call throws: nothing is bound and the
  application keeps no port. Otherwise the port is bound.
\<close>

definition listen ::
  "nat set \<Rightarrow> nat \<Rightarrow> ('e, 'r, 's) process \<Rightarrow> ('e, 'r, 's) process" where
  "listen in_use n a =
     (if n \<in> in_use then a\<lparr>uncaught := Some (EADDRINUSE n)\<rparr>
      else a\<lparr>port := Some n, trace := trace a @ [Bound n]\<rparr>)"

definition console_log :: "('e, 'r, 's) process \<Rightarrow> ('e, 'r, 's) process" where
  "console_log a = a\<lparr>trace := trace a @ [Console_written]\<rparr>"

text \<open>
  The chain of calls that the entry file binds to \<^verbatim>\<open>app\<close>, innermost call first.
  \<^verbatim>\<open>listen\<close> is the last call of the chain, so no call of the chain is skipped when it
  throws.
\<close>

definition app :: "nat set \<Rightarrow> ('e, 'r, 's) db \<Rightarrow> ('e, 'r, 's) process" where
  "app in_use db =
     listen in_use 3000
       (get ''/users'' (users_handler db)
          (get ''/'' root_handler
             (use swagger new_Elysia)))"

text \<open>
  The whole module: the import of the client, the chain, then the console line, which
  is reached only when the chain has not thrown.
\<close>

definition index_ts ::
  "config \<Rightarrow> nat set \<Rightarrow> ('e, 'r, 's) db_module \<Rightarrow> ('e, 'r, 's) process" where
  "index_ts cfg in_use db_module =
     (let db = db_module cfg;
          a = app in_use db
      in case uncaught a of
           None \<Rightarrow> console_log a
         | Some err \<Rightarrow> a)"

subsection \<open>Serving a request\<close>

text \<open>
  The framework is a library outside the repository. Its handling of a request is
  modelled as its documentation and the specification give it: the first registered
  route with the method and path of the request is run; a value it returns is sent with
  status 200; a value it throws goes to the framework's default error handling, kept
  abstract here together with the response for a path that has no route. The routes
  that the documentation plugin adds under its own path are not modelled. This is the
  application object's own handling of a request that has reached it; it does not
  depend on how the request arrived.
\<close>

datatype ('e, 'r) response =
    Response nat "'r reply"
  | Default_error 'e
  | Default_not_found

fun find_route ::
  "(http_method \<times> string \<times> ('e, 'r, 's) handler) list \<Rightarrow> http_method \<Rightarrow> string
     \<Rightarrow> ('e, 'r, 's) handler option" where
  "find_route [] m p = None"
| "find_route ((m', p', h) # rs) m p =
     (if m' = m \<and> p' = p then Some h else find_route rs m p)"

definition handle ::
  "('e, 'r, 's) process \<Rightarrow> request \<Rightarrow> 's \<Rightarrow> ('e, 'r) response \<times> 's" where
  "handle a rq s =
     (case find_route (routes a) (req_method rq) (path rq) of
        None \<Rightarrow> (Default_not_found, s)
      | Some h \<Rightarrow>
          (case h rq s of
             (Inl e, s') \<Rightarrow> (Default_error e, s')
           | (Inr v, s') \<Rightarrow> (Response 200 v, s')))"

subsection \<open>The startup sequence as the specification words it\<close>

text \<open>
  The specification's sequence: construct the application object, register one plugin,
  register three handlers, bind to a port, and nothing else. The predicate accepts any
  plugin, any three handlers and any port.
\<close>

definition spec_startup :: "event list \<Rightarrow> bool" where
  "spec_startup evs =
     (case evs of
        [c, p, h1, h2, h3, b] \<Rightarrow>
          c = Constructed \<and> is_plugin_registered p \<and> is_handler_registered h1
          \<and> is_handler_registered h2 \<and> is_handler_registered h3 \<and> is_bound b
      | _ \<Rightarrow> False)"

subsection \<open>Databases for the examples\<close>

text \<open>
  Three concrete clients over a state that counts the queries issued: one whose table
  is empty, one whose table holds two rows, and one whose first query fails while every
  later one succeeds.
\<close>

definition empty_db :: "(string, string, nat) db" where
  "empty_db t n = (Inr [], Suc n)"

definition two_rows_db :: "(string, string, nat) db" where
  "two_rows_db t n = (Inr [''ada'', ''grace''], Suc n)"

definition failing_once_db :: "(string, string, nat) db" where
  "failing_once_db t n = (if n = 0 then Inl ''SQLITE_BUSY'' else Inr [''ada''], Suc n)"

definition get_request :: "string \<Rightarrow> request" where
  "get_request p = \<lparr>req_method = GET, path = p, headers = [], body = []\<rparr>"

text \<open>
  Two database modules: one that reads the environment as the documentation describes,
  giving the client with two rows when \<^verbatim>\<open>TURSO_DATABASE_URL\<close> is set and the client with
  the empty table otherwise, and one whose client fails on its first query.
\<close>

definition turso_or_local :: "(string, string, nat) db_module" where
  "turso_or_local cfg =
     (if truthy (env_vars cfg ''TURSO_DATABASE_URL'') then two_rows_db else empty_db)"

definition failing_module :: "(string, string, nat) db_module" where
  "failing_module cfg = failing_once_db"

text \<open>
  Two configurations: a bare one, and one that sets the database URL and tries to move
  the port through a \<^verbatim>\<open>PORT\<close> variable and a \<^verbatim>\<open>--port\<close> flag.
\<close>

definition bare_config :: config where
  "bare_config = \<lparr>env_vars = Map.empty, argv = []\<rparr>"

definition remote_config :: config where
  "remote_config =
     \<lparr>env_vars = [''TURSO_DATABASE_URL'' \<mapsto> ''libsql://db.turso.io'', ''PORT'' \<mapsto> ''8080''],
      argv = [''--port'', ''8080'']\<rparr>"

section \<open>Properties of the connection string\<close>

lemma truthy_None [simp]: "truthy None = False"
  by (simp add: truthy_def)

lemma truthy_Some [simp]: "truthy (Some s) = (s \<noteq> [])"
  by (simp add: truthy_def)

text \<open>The four paths through the two conditionals, by the values of the two variables.\<close>

lemma url_paths:
  "url e =
     (case e ''TURSO_DATABASE_URL'' of
        None \<Rightarrow> ''file:local.db''
      | Some u \<Rightarrow>
          if u = [] then ''file:local.db''
          else (case e ''TURSO_AUTH_TOKEN'' of
                  None \<Rightarrow> u
                | Some t \<Rightarrow> if t = [] then u else u @ ''?authToken='' @ t))"
  by (simp add: url_def Let_def split: option.split)

text \<open>
  Claim C3. In every environment where neither \<^verbatim>\<open>TURSO_DATABASE_URL\<close> nor
  \<^verbatim>\<open>TURSO_AUTH_TOKEN\<close> is set, the connection string is the local file-backed store
  \<^verbatim>\<open>file:local.db\<close>; the computation is a total function with no failing branch.
\<close>

theorem url_no_turso_variables:
  assumes "e ''TURSO_DATABASE_URL'' = None" and "e ''TURSO_AUTH_TOKEN'' = None"
  shows "url e = ''file:local.db''"
  using assms by (simp add: url_def)

theorem url_no_turso_variables_witness:
  "[''HOME'' \<mapsto> ''/root''] ''TURSO_DATABASE_URL'' = None
   \<and> [''HOME'' \<mapsto> ''/root''] ''TURSO_AUTH_TOKEN'' = None
   \<and> url [''HOME'' \<mapsto> ''/root''] = ''file:local.db''"
proof -
  let ?e = "[''HOME'' \<mapsto> ''/root'']"
  have u: "?e ''TURSO_DATABASE_URL'' = None" by simp
  have t: "?e ''TURSO_AUTH_TOKEN'' = None" by simp
  have r: "url ?e = ''file:local.db''"
    by (rule url_no_turso_variables [of ?e, OF u t])
  from u t r show ?thesis by blast
qed

text \<open>
  Claim C4. In every environment where \<^verbatim>\<open>TURSO_DATABASE_URL\<close> is set to a non-empty
  string and \<^verbatim>\<open>TURSO_AUTH_TOKEN\<close> is not set, the connection string is the value of
  \<^verbatim>\<open>TURSO_DATABASE_URL\<close> itself: nothing is appended to it.
\<close>

theorem url_database_url_only:
  assumes "e ''TURSO_DATABASE_URL'' = Some u" and "u \<noteq> []"
    and "e ''TURSO_AUTH_TOKEN'' = None"
  shows "url e = u"
  using assms by (simp add: url_def)

theorem url_database_url_only_witness:
  "[''TURSO_DATABASE_URL'' \<mapsto> ''libsql://db.turso.io''] ''TURSO_DATABASE_URL''
     = Some ''libsql://db.turso.io''
   \<and> ''libsql://db.turso.io'' \<noteq> []
   \<and> [''TURSO_DATABASE_URL'' \<mapsto> ''libsql://db.turso.io''] ''TURSO_AUTH_TOKEN'' = None
   \<and> url [''TURSO_DATABASE_URL'' \<mapsto> ''libsql://db.turso.io''] = ''libsql://db.turso.io''"
proof -
  let ?e = "[''TURSO_DATABASE_URL'' \<mapsto> ''libsql://db.turso.io'']"
  have u: "?e ''TURSO_DATABASE_URL'' = Some ''libsql://db.turso.io''" by simp
  have n: "''libsql://db.turso.io'' \<noteq> []" by simp
  have t: "?e ''TURSO_AUTH_TOKEN'' = None" by simp
  have r: "url ?e = ''libsql://db.turso.io''"
    by (rule url_database_url_only [of ?e, OF u n t])
  from u n t r show ?thesis by blast
qed

text \<open>
  Claim C5. In every environment where both \<^verbatim>\<open>TURSO_DATABASE_URL\<close> and
  \<^verbatim>\<open>TURSO_AUTH_TOKEN\<close> are set to non-empty strings, the connection string is the value
  of \<^verbatim>\<open>TURSO_DATABASE_URL\<close> followed by \<^verbatim>\<open>?authToken=\<close> and the value of
  \<^verbatim>\<open>TURSO_AUTH_TOKEN\<close>.
\<close>

theorem url_with_auth_token:
  assumes "e ''TURSO_DATABASE_URL'' = Some u" and "u \<noteq> []"
    and "e ''TURSO_AUTH_TOKEN'' = Some t" and "t \<noteq> []"
  shows "url e = u @ ''?authToken='' @ t"
  using assms by (simp add: url_def)

theorem url_with_auth_token_witness:
  "[''TURSO_DATABASE_URL'' \<mapsto> ''libsql://db.turso.io'', ''TURSO_AUTH_TOKEN'' \<mapsto> ''s3cr3t'']
      ''TURSO_DATABASE_URL'' = Some ''libsql://db.turso.io''
   \<and> ''libsql://db.turso.io'' \<noteq> []
   \<and> [''TURSO_DATABASE_URL'' \<mapsto> ''libsql://db.turso.io'', ''TURSO_AUTH_TOKEN'' \<mapsto> ''s3cr3t'']
      ''TURSO_AUTH_TOKEN'' = Some ''s3cr3t''
   \<and> ''s3cr3t'' \<noteq> []
   \<and> url [''TURSO_DATABASE_URL'' \<mapsto> ''libsql://db.turso.io'', ''TURSO_AUTH_TOKEN'' \<mapsto> ''s3cr3t'']
     = ''libsql://db.turso.io?authToken=s3cr3t''"
proof -
  let ?e = "[''TURSO_DATABASE_URL'' \<mapsto> ''libsql://db.turso.io'',
             ''TURSO_AUTH_TOKEN'' \<mapsto> ''s3cr3t'']"
  have u: "?e ''TURSO_DATABASE_URL'' = Some ''libsql://db.turso.io''" by simp
  have n: "''libsql://db.turso.io'' \<noteq> []" by simp
  have t: "?e ''TURSO_AUTH_TOKEN'' = Some ''s3cr3t''" by simp
  have m: "''s3cr3t'' \<noteq> []" by simp
  have "url ?e = ''libsql://db.turso.io'' @ ''?authToken='' @ ''s3cr3t''"
    by (rule url_with_auth_token [of ?e, OF u n t m])
  then have r: "url ?e = ''libsql://db.turso.io?authToken=s3cr3t''"
    by (simp del: fun_upd_apply)
  from u n t m r show ?thesis by blast
qed

text \<open>
  Claim C9. In every environment where \<^verbatim>\<open>TURSO_AUTH_TOKEN\<close> is set but
  \<^verbatim>\<open>TURSO_DATABASE_URL\<close> is not set, or is set to the empty string, the token is
  ignored: the connection string is \<^verbatim>\<open>file:local.db\<close>, whatever the token is, and so
  carries no \<^verbatim>\<open>authToken\<close> parameter.
\<close>

theorem url_auth_token_ignored:
  assumes "e ''TURSO_AUTH_TOKEN'' = Some t"
    and "e ''TURSO_DATABASE_URL'' = None \<or> e ''TURSO_DATABASE_URL'' = Some []"
  shows "url e = ''file:local.db'' \<and> \<not> sublist ''authToken'' (url e)"
proof -
  from assms have "url e = ''file:local.db''"
    by (auto simp add: url_paths)
  then show ?thesis
    by (simp add: sublist_Cons_right)
qed

theorem url_auth_token_ignored_witness:
  "[''TURSO_AUTH_TOKEN'' \<mapsto> ''s3cr3t''] ''TURSO_AUTH_TOKEN'' = Some ''s3cr3t''
   \<and> ([''TURSO_AUTH_TOKEN'' \<mapsto> ''s3cr3t''] ''TURSO_DATABASE_URL'' = None
      \<or> [''TURSO_AUTH_TOKEN'' \<mapsto> ''s3cr3t''] ''TURSO_DATABASE_URL'' = Some [])
   \<and> url [''TURSO_AUTH_TOKEN'' \<mapsto> ''s3cr3t''] = ''file:local.db''
   \<and> \<not> sublist ''authToken'' (url [''TURSO_AUTH_TOKEN'' \<mapsto> ''s3cr3t''])"
proof -
  let ?e = "[''TURSO_AUTH_TOKEN'' \<mapsto> ''s3cr3t'']"
  have t: "?e ''TURSO_AUTH_TOKEN'' = Some ''s3cr3t''" by simp
  have u: "?e ''TURSO_DATABASE_URL'' = None \<or> ?e ''TURSO_DATABASE_URL'' = Some []" by simp
  note r = url_auth_token_ignored [of ?e, OF t u]
  from t u r show ?thesis by blast
qed

text \<open>
  Claim C10. The selection tests truthiness, not presence. Where
  \<^verbatim>\<open>TURSO_DATABASE_URL\<close> is set to the empty string the connection string is
  \<^verbatim>\<open>file:local.db\<close>, as if the variable were unset; where \<^verbatim>\<open>TURSO_AUTH_TOKEN\<close> is set
  to the empty string the connection string is the one computed with the token unset, so
  no \<^verbatim>\<open>?authToken=\<close> suffix is appended.
\<close>

theorem url_empty_string_is_unset:
  "(e ''TURSO_DATABASE_URL'' = Some [] \<longrightarrow>
      url e = ''file:local.db'' \<and> url e = url (e(''TURSO_DATABASE_URL'' := None)))
   \<and> (e ''TURSO_AUTH_TOKEN'' = Some [] \<longrightarrow>
      url e = url (e(''TURSO_AUTH_TOKEN'' := None))
      \<and> (\<forall>u. e ''TURSO_DATABASE_URL'' = Some u \<and> u \<noteq> [] \<longrightarrow> url e = u))"
proof (intro conjI impI allI)
  assume "e ''TURSO_DATABASE_URL'' = Some []"
  then show "url e = ''file:local.db''"
    and "url e = url (e(''TURSO_DATABASE_URL'' := None))"
    by (simp_all add: url_paths)
next
  assume t: "e ''TURSO_AUTH_TOKEN'' = Some []"
  then show "url e = url (e(''TURSO_AUTH_TOKEN'' := None))"
    by (simp add: url_paths split: option.split)
  fix u
  assume "e ''TURSO_DATABASE_URL'' = Some u \<and> u \<noteq> []"
  with t show "url e = u"
    by (simp add: url_paths)
qed

theorem url_empty_string_is_unset_witness:
  "[''TURSO_DATABASE_URL'' \<mapsto> [], ''TURSO_AUTH_TOKEN'' \<mapsto> ''s3cr3t''] ''TURSO_DATABASE_URL''
     = Some []
   \<and> url [''TURSO_DATABASE_URL'' \<mapsto> [], ''TURSO_AUTH_TOKEN'' \<mapsto> ''s3cr3t''] = ''file:local.db''
   \<and> [''TURSO_DATABASE_URL'' \<mapsto> ''libsql://db.turso.io'', ''TURSO_AUTH_TOKEN'' \<mapsto> []]
        ''TURSO_AUTH_TOKEN'' = Some []
   \<and> [''TURSO_DATABASE_URL'' \<mapsto> ''libsql://db.turso.io'', ''TURSO_AUTH_TOKEN'' \<mapsto> []]
        ''TURSO_DATABASE_URL'' = Some ''libsql://db.turso.io''
   \<and> ''libsql://db.turso.io'' \<noteq> []
   \<and> url [''TURSO_DATABASE_URL'' \<mapsto> ''libsql://db.turso.io'', ''TURSO_AUTH_TOKEN'' \<mapsto> []]
     = ''libsql://db.turso.io''"
proof -
  let ?a = "[''TURSO_DATABASE_URL'' \<mapsto> [], ''TURSO_AUTH_TOKEN'' \<mapsto> ''s3cr3t'']"
  let ?b = "[''TURSO_DATABASE_URL'' \<mapsto> ''libsql://db.turso.io'', ''TURSO_AUTH_TOKEN'' \<mapsto> []]"
  have a: "?a ''TURSO_DATABASE_URL'' = Some []" by simp
  have b: "?b ''TURSO_AUTH_TOKEN'' = Some []" by simp
  have c: "?b ''TURSO_DATABASE_URL'' = Some ''libsql://db.turso.io''" by simp
  have n: "''libsql://db.turso.io'' \<noteq> []" by simp
  have ua: "url ?a = ''file:local.db''"
    using url_empty_string_is_unset [of ?a] a by blast
  have ub: "url ?b = ''libsql://db.turso.io''"
    using url_empty_string_is_unset [of ?b] b c n by blast
  from a ua b c n ub show ?thesis by blast
qed

section \<open>Properties of the HTTP server\<close>

lemma app_port_free:
  assumes "3000 \<notin> in_use"
  shows "app in_use db =
           \<lparr>plugins = [swagger],
            routes = [(GET, ''/'', root_handler), (GET, ''/users'', users_handler db)],
            port = Some 3000,
            trace = [Constructed, Plugin_registered swagger, Handler_registered GET ''/'',
                     Handler_registered GET ''/users'', Bound 3000],
            uncaught = None\<rparr>"
  using assms by (simp add: app_def listen_def get_def use_def new_Elysia_def)

lemma app_port_in_use:
  assumes "3000 \<in> in_use"
  shows "app in_use db =
           \<lparr>plugins = [swagger],
            routes = [(GET, ''/'', root_handler), (GET, ''/users'', users_handler db)],
            port = None,
            trace = [Constructed, Plugin_registered swagger, Handler_registered GET ''/'',
                     Handler_registered GET ''/users''],
            uncaught = Some (EADDRINUSE 3000)\<rparr>"
  using assms by (simp add: app_def listen_def get_def use_def new_Elysia_def)

lemma index_ts_port_free:
  assumes "3000 \<notin> in_use"
  shows "index_ts cfg in_use db_module = console_log (app in_use (db_module cfg))"
  using assms by (simp add: index_ts_def Let_def app_port_free)

lemma index_ts_port_in_use:
  assumes "3000 \<in> in_use"
  shows "index_ts cfg in_use db_module = app in_use (db_module cfg)"
  using assms by (simp add: index_ts_def Let_def app_port_in_use)

lemma routes_index_ts:
  "routes (index_ts cfg in_use db_module) =
     [(GET, ''/'', root_handler), (GET, ''/users'', users_handler (db_module cfg))]"
proof (cases "3000 \<in> in_use")
  case True
  then show ?thesis
    by (simp add: index_ts_port_in_use app_port_in_use)
next
  case False
  then show ?thesis
    by (simp add: index_ts_port_free app_port_free console_log_def)
qed

lemma find_root_route:
  "find_route (routes (index_ts cfg in_use db_module)) GET ''/'' = Some root_handler"
  by (simp add: routes_index_ts)

lemma find_users_route:
  "find_route (routes (index_ts cfg in_use db_module)) GET ''/users''
     = Some (users_handler (db_module cfg))"
  by (simp add: routes_index_ts)

lemma get_request_fields:
  "req_method (get_request p) = GET" "path (get_request p) = p"
  by (simp_all add: get_request_def)

lemma turso_or_local_bare: "turso_or_local bare_config = empty_db"
  by (simp add: turso_or_local_def bare_config_def)

lemma turso_or_local_remote: "turso_or_local remote_config = two_rows_db"
  by (simp add: turso_or_local_def remote_config_def)

text \<open>
  Claim C1. Whatever the users table holds, a GET request to \<^verbatim>\<open>/users\<close> is answered
  with status 200 and exactly the rows that the one select-all query on the users table
  yields, in the same order and with nothing removed; the state left behind is the one
  after that single query. An empty table gives the empty array.
\<close>

theorem users_returns_rows:
  assumes "req_method rq = GET" and "path rq = ''/users''"
    and "db_module cfg users s = (Inr rows, s')"
  shows "handle (index_ts cfg in_use db_module) rq s = (Response 200 (Rows rows), s')"
  using assms by (simp add: handle_def find_users_route users_handler_def)

theorem users_returns_rows_witness:
  "req_method (get_request ''/users'') = GET \<and> path (get_request ''/users'') = ''/users''
   \<and> turso_or_local bare_config users 0 = (Inr [], 1)
   \<and> handle (index_ts bare_config {} turso_or_local) (get_request ''/users'') 0
     = (Response 200 (Rows []), 1)
   \<and> turso_or_local remote_config users 0 = (Inr [''ada'', ''grace''], 1)
   \<and> handle (index_ts remote_config {} turso_or_local) (get_request ''/users'') 0
     = (Response 200 (Rows [''ada'', ''grace'']), 1)"
proof -
  note m = get_request_fields(1) [of "''/users''"]
  note p = get_request_fields(2) [of "''/users''"]
  have e: "turso_or_local bare_config users 0 = (Inr [], 1)"
    by (simp add: turso_or_local_bare empty_db_def)
  have t: "turso_or_local remote_config users 0 = (Inr [''ada'', ''grace''], 1)"
    by (simp add: turso_or_local_remote two_rows_db_def)
  have re: "handle (index_ts bare_config {} turso_or_local) (get_request ''/users'') 0
              = (Response 200 (Rows []), 1)"
    by (rule users_returns_rows
        [where db_module = turso_or_local and cfg = bare_config and s = 0, OF m p e])
  have rt: "handle (index_ts remote_config {} turso_or_local) (get_request ''/users'') 0
              = (Response 200 (Rows [''ada'', ''grace'']), 1)"
    by (rule users_returns_rows
        [where db_module = turso_or_local and cfg = remote_config and s = 0, OF m p t])
  from m p e re t rt show ?thesis by blast
qed

text \<open>
  Claim C2. Every GET request to \<^verbatim>\<open>/\<close> is answered with status 200 and the fixed text
  \<^verbatim>\<open>Hello Elysia\<close>, whatever else the request carries and whatever the database is; the
  handler reads nothing, leaves the state as it was and has no throwing branch.
\<close>

theorem root_returns_greeting:
  assumes "req_method rq = GET" and "path rq = ''/''"
  shows "handle (index_ts cfg in_use db_module) rq s
           = (Response 200 (Text ''Hello Elysia''), s)"
  using assms by (simp add: handle_def find_root_route root_handler_def)

theorem root_returns_greeting_witness:
  "req_method (get_request ''/'') = GET \<and> path (get_request ''/'') = ''/''
   \<and> handle (index_ts bare_config {} failing_module) (get_request ''/'') 0
     = (Response 200 (Text ''Hello Elysia''), 0)"
proof -
  note m = get_request_fields(1) [of "''/''"]
  note p = get_request_fields(2) [of "''/''"]
  have r: "handle (index_ts bare_config {} failing_module) (get_request ''/'') 0
             = (Response 200 (Text ''Hello Elysia''), 0)"
    by (rule root_returns_greeting
        [where db_module = failing_module and cfg = bare_config and s = 0, OF m p])
  from m p r show ?thesis by blast
qed

text \<open>
  Claim C6, as the specification states it: at process start the program constructs the
  application object, registers a logging middleware plugin, registers three HTTP
  handlers and binds to a port, and does nothing else. The trace of the entry file does
  not have this shape, whichever plugin is accepted as the logging one, neither when
  port 3000 is free nor when it is in use.
\<close>

theorem startup_not_as_specified:
  "\<not> spec_startup (trace (index_ts bare_config {} turso_or_local))
   \<and> \<not> spec_startup (trace (index_ts bare_config {3000} turso_or_local))"
  by (simp add: spec_startup_def index_ts_port_free index_ts_port_in_use app_port_free
      app_port_in_use console_log_def)

text \<open>
  Claim C6, amended. The entry file performs, in this order: construct the application
  object, register the \<^verbatim>\<open>swagger\<close> documentation plugin, register the GET handler of
  \<^verbatim>\<open>/\<close>, register the GET handler of \<^verbatim>\<open>/users\<close>, call \<^verbatim>\<open>listen\<close> on port 3000. When
  port 3000 is free it is bound and one line is then written to the console. When it is
  in use the call throws, nothing is bound and no line is written. Nothing else happens
  in either case.
\<close>

theorem startup_sequence:
  "trace (index_ts cfg in_use db_module) =
     [Constructed, Plugin_registered swagger, Handler_registered GET ''/'',
      Handler_registered GET ''/users'']
     @ (if 3000 \<in> in_use then [] else [Bound 3000, Console_written])
   \<and> uncaught (index_ts cfg in_use db_module) =
     (if 3000 \<in> in_use then Some (EADDRINUSE 3000) else None)"
proof (cases "3000 \<in> in_use")
  case True
  then show ?thesis
    by (simp add: index_ts_port_in_use app_port_in_use)
next
  case False
  then show ?thesis
    by (simp add: index_ts_port_free app_port_free console_log_def)
qed

theorem startup_sequence_witness:
  "trace (index_ts remote_config {} turso_or_local) =
     [Constructed, Plugin_registered swagger, Handler_registered GET ''/'',
      Handler_registered GET ''/users'', Bound 3000, Console_written]
   \<and> uncaught (index_ts remote_config {} turso_or_local) = None
   \<and> trace (index_ts remote_config {3000} turso_or_local) =
     [Constructed, Plugin_registered swagger, Handler_registered GET ''/'',
      Handler_registered GET ''/users'']
   \<and> uncaught (index_ts remote_config {3000} turso_or_local) = Some (EADDRINUSE 3000)"
proof -
  note free = startup_sequence [of remote_config "{}" turso_or_local]
  note used = startup_sequence [of remote_config "{3000}" turso_or_local]
  from free used show ?thesis by simp
qed

text \<open>
  Claim C7. When the query of the \<^verbatim>\<open>/users\<close> handler fails, the handler throws the very
  value the query threw, after that one query and no other: nothing is caught, retried
  or reformatted, and the value reaches the framework's default error handling as it is.
\<close>

theorem users_error_propagates:
  assumes "req_method rq = GET" and "path rq = ''/users''"
    and "db_module cfg users s = (Inl e, s')"
  shows "users_handler (db_module cfg) rq s = (Inl e, s')
         \<and> handle (index_ts cfg in_use db_module) rq s = (Default_error e, s')"
  using assms by (simp add: handle_def find_users_route users_handler_def)

theorem users_error_propagates_witness:
  "req_method (get_request ''/users'') = GET \<and> path (get_request ''/users'') = ''/users''
   \<and> failing_module bare_config users 0 = (Inl ''SQLITE_BUSY'', 1)
   \<and> users_handler (failing_module bare_config) (get_request ''/users'') 0
     = (Inl ''SQLITE_BUSY'', 1)
   \<and> handle (index_ts bare_config {} failing_module) (get_request ''/users'') 0
     = (Default_error ''SQLITE_BUSY'', 1)"
proof -
  note m = get_request_fields(1) [of "''/users''"]
  note p = get_request_fields(2) [of "''/users''"]
  have f: "failing_module bare_config users 0 = (Inl ''SQLITE_BUSY'', 1)"
    by (simp add: failing_module_def failing_once_db_def)
  note r = users_error_propagates
    [where db_module = failing_module and cfg = bare_config and s = 0 and in_use = "{}",
      OF m p f]
  from m p f r show ?thesis by blast
qed

text \<open>
  Claim C8. The port is the constant 3000. For every environment, every command line
  and every database module that reads them, the one port the entry file asks for is
  3000: when 3000 is free on the host the application listens on 3000 and that is the
  only port bound; when 3000 is in use nothing is bound, no other port is tried and the
  start ends with the error for port 3000. The outcome depends on the host's ports
  alone, never on the configuration.
\<close>

theorem port_is_constant:
  "port (index_ts cfg in_use db_module) = (if 3000 \<in> in_use then None else Some 3000)
   \<and> filter is_bound (trace (index_ts cfg in_use db_module)) =
     (if 3000 \<in> in_use then [] else [Bound 3000])
   \<and> uncaught (index_ts cfg in_use db_module) =
     (if 3000 \<in> in_use then Some (EADDRINUSE 3000) else None)"
proof (cases "3000 \<in> in_use")
  case True
  then show ?thesis
    by (simp add: index_ts_port_in_use app_port_in_use)
next
  case False
  then show ?thesis
    by (simp add: index_ts_port_free app_port_free console_log_def)
qed

theorem port_is_constant_witness:
  "port (index_ts remote_config {} turso_or_local) = Some 3000
   \<and> filter is_bound (trace (index_ts remote_config {} turso_or_local)) = [Bound 3000]
   \<and> port (index_ts bare_config {} failing_module) = Some 3000
   \<and> port (index_ts remote_config {3000} turso_or_local) = None
   \<and> filter is_bound (trace (index_ts remote_config {3000} turso_or_local)) = []
   \<and> uncaught (index_ts remote_config {3000} turso_or_local) = Some (EADDRINUSE 3000)"
proof -
  note free = port_is_constant [of remote_config "{}" turso_or_local]
  note bare = port_is_constant [of bare_config "{}" failing_module]
  note used = port_is_constant [of remote_config "{3000}" turso_or_local]
  from free bare used show ?thesis by simp
qed

end
